theory Spec2Isabelle
  imports Main "HOL-Library.Sublist" "HOL-Library.AList"
begin

section \<open>Common Python notions\<close>

text \<open>
  Python strings are modelled as \<^typ>\<open>string\<close>, one \<^typ>\<open>char\<close> per character
  (the texts the code handles here are runtime names, option tokens, server names and
  identifiers). Exceptions are values. Only subclasses of \<open>Exception\<close> are modelled:
  every handler in the source is \<open>except Exception\<close> or narrower, and \<open>sys.exit\<close>
  is modelled by the exit status a command returns.
\<close>

datatype exc =
    ImportError string
  | ValueError string
  | KeyError string
  | AttributeError string
  | TypeError string
  | RequestException string
  | OtherException string

text \<open>\<open>str(e)\<close>: the message of an exception.\<close>

fun str_exc :: "exc \<Rightarrow> string" where
  "str_exc (ImportError m) = m"
| "str_exc (ValueError m) = m"
| "str_exc (KeyError m) = m"
| "str_exc (AttributeError m) = m"
| "str_exc (TypeError m) = m"
| "str_exc (RequestException m) = m"
| "str_exc (OtherException m) = m"

fun is_ImportError :: "exc \<Rightarrow> bool" where
  "is_ImportError (ImportError m) = True"
| "is_ImportError e = False"

text \<open>\<open>str.isspace\<close> on one ASCII character, and \<open>str.strip()\<close>.\<close>

definition is_space :: "char \<Rightarrow> bool" where
  "is_space c = (let n = (of_char c :: nat) in (9 \<le> n \<and> n \<le> 13) \<or> (28 \<le> n \<and> n \<le> 32))"

definition strip :: "string \<Rightarrow> string" where
  "strip s = rev (dropWhile is_space (rev (dropWhile is_space s)))"

section \<open>Runtime manager (\<open>runtime/manager.py\<close>)\<close>

subsection \<open>The file system and the processes the manager observes\<close>

type_synonym path = string

datatype node = RegularFile | Directory

text \<open>
  The result of \<open>subprocess.run([binary, "--version"], timeout=5)\<close>: it raises
  (the binary cannot be started, or the timeout expires) or completes with a return
  code and a standard output.
\<close>

datatype proc_result = ProcRaised | Completed int string

text \<open>
  One snapshot of what a single call of the manager can observe: the user's home
  directory, what (if anything) each path resolves to, whether a path has the execute
  permission (which no function of the manager asks for), the answer of
  \<open>shutil.which\<close> for a command name, and what running a binary with \<open>--version\<close>
  does.
\<close>

record filesystem =
  home :: path
  node_at :: "path \<Rightarrow> node option"
  executable :: "path \<Rightarrow> bool"
  which :: "string \<Rightarrow> path option"
  run_version :: "path \<Rightarrow> proc_result"

text \<open>
  The questions \<open>is_runtime_available\<close> asks the machine (\<open>exists()\<close>,
  \<open>is_file()\<close>, \<open>shutil.which\<close>), recorded in the order it asks them.
\<close>

datatype probe = Exists path | IsFile path | Which string

definition path_exists :: "filesystem \<Rightarrow> path \<Rightarrow> bool" where
  "path_exists fs p = (node_at fs p \<noteq> None)"

definition path_is_file :: "filesystem \<Rightarrow> path \<Rightarrow> bool" where
  "path_is_file fs p = (node_at fs p = Some RegularFile)"

text \<open>\<open>Path / name\<close>.\<close>

definition joinpath :: "path \<Rightarrow> string \<Rightarrow> path" where
  "joinpath d name = d @ ''/'' @ name"

subsection \<open>\<open>RuntimeManager\<close>\<close>

record runtime_info =
  info_script :: string
  info_description :: string
  info_binary :: string

text \<open>\<open>self.runtime_dir = Path.home() / ".awd" / "runtimes"\<close>.\<close>

definition runtime_dir :: "filesystem \<Rightarrow> path" where
  "runtime_dir fs = joinpath (joinpath (home fs) ''.awd'') ''runtimes''"

text \<open>\<open>self.supported_runtimes\<close>, a dictionary in insertion order.\<close>

definition supported_runtimes :: "(string \<times> runtime_info) list" where
  "supported_runtimes =
     [(''codex'', \<lparr>info_script = ''setup-codex.sh'',
                  info_description = ''OpenAI Codex CLI with GitHub Models support'',
                  info_binary = ''codex''\<rparr>),
      (''llm'', \<lparr>info_script = ''setup-llm.sh'',
                info_description = ''Simon Willison's LLM library with multiple providers'',
                info_binary = ''llm''\<rparr>)]"

record runtime_status =
  description :: string
  installed :: bool
  path :: "string option"
  version :: "string option"

text \<open>
  The body of the loop of \<open>list_runtimes\<close> for one entry of \<open>supported_runtimes\<close>.
  The key \<open>"version"\<close> is absent (\<open>None\<close> here) when the runtime is not installed or
  the version command ends with a nonzero return code.
\<close>

definition runtime_status_of :: "filesystem \<Rightarrow> runtime_info \<Rightarrow> runtime_status" where
  "runtime_status_of fs info =
     (let binary_path = joinpath (runtime_dir fs) (info_binary info);
          runtime_status = \<lparr>description = info_description info,
                            installed = path_exists fs binary_path,
                            path = (if path_exists fs binary_path then Some binary_path else None),
                            version = None\<rparr>
      in if installed runtime_status then
           (case run_version fs binary_path of
              ProcRaised \<Rightarrow> runtime_status\<lparr>version := Some ''unknown''\<rparr>
            | Completed returncode out \<Rightarrow>
                if returncode = 0 then runtime_status\<lparr>version := Some (strip out)\<rparr>
                else runtime_status)
         else runtime_status)"

definition list_runtimes :: "filesystem \<Rightarrow> (string \<times> runtime_status) list" where
  "list_runtimes fs = map (\<lambda>(name, info). (name, runtime_status_of fs info)) supported_runtimes"

text \<open>
  \<open>is_runtime_available\<close>, with the observations it makes. Python's \<open>and\<close> asks
  \<open>is_file()\<close> only when \<open>exists()\<close> is true.
\<close>

definition is_runtime_available :: "filesystem \<Rightarrow> string \<Rightarrow> bool \<times> probe list" where
  "is_runtime_available fs runtime_name =
     (case map_of supported_runtimes runtime_name of
        None \<Rightarrow> (False, [])
      | Some info \<Rightarrow>
          (let binary_name = info_binary info;
               awd_binary = joinpath (runtime_dir fs) binary_name
           in if path_exists fs awd_binary then
                (if path_is_file fs awd_binary
                 then (True, [Exists awd_binary, IsFile awd_binary])
                 else (which fs binary_name \<noteq> None,
                       [Exists awd_binary, IsFile awd_binary, Which binary_name]))
              else (which fs binary_name \<noteq> None, [Exists awd_binary, Which binary_name])))"

definition get_runtime_preference :: "string list" where
  "get_runtime_preference = [''codex'', ''llm'']"

text \<open>The loop of \<open>get_available_runtime\<close> over the preference list.\<close>

fun first_available :: "filesystem \<Rightarrow> string list \<Rightarrow> string option \<times> probe list" where
  "first_available fs [] = (None, [])"
| "first_available fs (runtime # rest) =
     (case is_runtime_available fs runtime of
        (True, ps) \<Rightarrow> (Some runtime, ps)
      | (False, ps) \<Rightarrow> (case first_available fs rest of (r, ps') \<Rightarrow> (r, ps @ ps')))"

definition get_available_runtime :: "filesystem \<Rightarrow> string option \<times> probe list" where
  "get_available_runtime fs = first_available fs get_runtime_preference"

section \<open>Registry client (\<open>registry/client.py\<close>)\<close>

subsection \<open>The registry the client talks to\<close>

text \<open>
  A server entry is a JSON object; its values are taken to be strings, which is what
  the client reads (\<open>name\<close>, \<open>description\<close>, \<open>id\<close>). \<open>map_of server k\<close> is
  \<open>server.get(k)\<close>.
\<close>

type_synonym server = "(string \<times> string) list"

text \<open>
  The HTTP requests of the client: \<open>GET /v0/servers\<close> with the query parameters
  \<open>limit\<close> and \<open>cursor\<close> (each sent only when it is not \<open>None\<close>), and
  \<open>GET /v0/servers/{id}\<close>.
\<close>

datatype request = GetServers "int option" "string option" | GetServer string

text \<open>
  The decoded body of a listing: the keys \<open>servers\<close> and \<open>metadata\<close> may be
  missing.
\<close>

record listing_body =
  body_servers :: "server list option"
  body_metadata :: "(string \<times> string) list option"

text \<open>
  The registry as one call of the client sees it: the outcome of
  \<open>session.get\<close>, \<open>raise_for_status\<close> and \<open>response.json()\<close> for each request,
  an exception (\<open>Inl\<close>) or the decoded body.
\<close>

record registry =
  respond_listing :: "int option \<Rightarrow> string option \<Rightarrow> exc + listing_body"
  respond_server :: "string \<Rightarrow> exc + server"

subsection \<open>\<open>SimpleRegistryClient\<close>\<close>

text \<open>
  Every method returns its result (\<open>Inl\<close> for a raised exception) together with the
  requests it has sent, in order.
\<close>

text \<open>\<open>data.get("servers", [])\<close>.\<close>

definition listed_servers :: "listing_body \<Rightarrow> server list" where
  "listed_servers data = (case body_servers data of None \<Rightarrow> [] | Some ss \<Rightarrow> ss)"

definition list_servers ::
  "registry \<Rightarrow> int option \<Rightarrow> string option
     \<Rightarrow> (exc + server list \<times> string option) \<times> request list" where
  "list_servers reg limit cursor =
     (case respond_listing reg limit cursor of
        Inl e \<Rightarrow> (Inl e, [GetServers limit cursor])
      | Inr data \<Rightarrow>
          (let servers = listed_servers data;
               metadata = (case body_metadata data of None \<Rightarrow> [] | Some m \<Rightarrow> m);
               next_cursor = map_of metadata ''next_cursor''
           in (Inr (servers, next_cursor), [GetServers limit cursor])))"






definition get_server_info :: "registry \<Rightarrow> string \<Rightarrow> (exc + server) \<times> request list" where
  "get_server_info reg server_id =
     (case respond_server reg server_id of
        Inl e \<Rightarrow> (Inl e, [GetServer server_id])
      | Inr server_info \<Rightarrow>
          if server_info = []
          then (Inl (ValueError (''Server '' @ [CHR 0x27] @ server_id @ [CHR 0x27]
                                  @ '' not found in registry'')),
                [GetServer server_id])
          else (Inr server_info, [GetServer server_id]))"

text \<open>
  \<open>get_server_by_name\<close>: the first entry of the listing with the given name decides;
  \<open>server["id"]\<close> and \<open>get_server_info\<close> are not guarded here.
\<close>

definition get_server_by_name :: "registry \<Rightarrow> string \<Rightarrow> (exc + server option) \<times> request list" where
  "get_server_by_name reg name =
     (case list_servers reg (Some 100) None of
        (Inl e, reqs) \<Rightarrow> (Inl e, reqs)
      | (Inr (servers, _), reqs) \<Rightarrow>
          (case find (\<lambda>server. map_of server ''name'' = Some name) servers of
             None \<Rightarrow> (Inr None, reqs)
           | Some server \<Rightarrow>
               (case map_of server ''id'' of
                  None \<Rightarrow> (Inl (KeyError ''id''), reqs)
                | Some server_id \<Rightarrow>
                    (case get_server_info reg server_id of
                       (Inl e, reqs') \<Rightarrow> (Inl e, reqs @ reqs')
                     | (Inr info, reqs') \<Rightarrow> (Inr (Some info), reqs @ reqs')))))"

text \<open>
  The loop of \<open>find_server_by_reference\<close> over the listing. \<open>server["id"]\<close> is inside
  the \<open>try\<close>: a missing key raises \<open>KeyError\<close>, which the handler turns into
  \<open>continue\<close>, as it does for a failing \<open>get_server_info\<close>.
\<close>

fun scan_by_name :: "registry \<Rightarrow> string \<Rightarrow> server list \<Rightarrow> server option \<times> request list" where
  "scan_by_name reg reference [] = (None, [])"
| "scan_by_name reg reference (server # rest) =
     (if map_of server ''name'' = Some reference then
        (case map_of server ''id'' of
           None \<Rightarrow> scan_by_name reg reference rest
         | Some server_id \<Rightarrow>
             (case get_server_info reg server_id of
                (Inr info, reqs) \<Rightarrow> (Some info, reqs)
              | (Inl e, reqs) \<Rightarrow>
                  (case scan_by_name reg reference rest of (r, reqs') \<Rightarrow> (r, reqs @ reqs'))))
      else scan_by_name reg reference rest)"

text \<open>Strategy 2 of \<open>find_server_by_reference\<close>: the listing, then the loop.\<close>

definition exact_name_match :: "registry \<Rightarrow> string \<Rightarrow> (exc + server option) \<times> request list" where
  "exact_name_match reg reference =
     (case list_servers reg (Some 100) None of
        (Inl e, reqs) \<Rightarrow> (Inl e, reqs)
      | (Inr (servers, _), reqs) \<Rightarrow>
          (case scan_by_name reg reference servers of (r, reqs') \<Rightarrow> (Inr r, reqs @ reqs')))"

text \<open>\<open>len(reference) == 36 and reference.count('-') == 4\<close>.\<close>

definition looks_like_uuid :: "string \<Rightarrow> bool" where
  "looks_like_uuid reference = (length reference = 36 \<and> count_list reference CHR ''-'' = 4)"

definition find_server_by_reference ::
  "registry \<Rightarrow> string \<Rightarrow> (exc + server option) \<times> request list" where
  "find_server_by_reference reg reference =
     (if looks_like_uuid reference then
        (case get_server_info reg reference of
           (Inr info, reqs) \<Rightarrow> (Inr (Some info), reqs)
         | (Inl e, reqs) \<Rightarrow>
             (case exact_name_match reg reference of (r, reqs') \<Rightarrow> (r, reqs @ reqs')))
      else exact_name_match reg reference)"

text \<open>
  The registry's own answer for an identifier, in the terms of the protocol: the body
  of \<open>GET /v0/servers/{id}\<close> when the request succeeds and the body is not empty.
\<close>

definition details :: "registry \<Rightarrow> string \<Rightarrow> server option" where
  "details reg server_id =
     (case respond_server reg server_id of
        Inl e \<Rightarrow> None
      | Inr info \<Rightarrow> if info = [] then None else Some info)"

text \<open>
  The identifiers of the entries of a page whose name is exactly the reference, in the
  order of the page (an entry without \<open>id\<close> contributes none).
\<close>

definition name_matched_ids :: "string \<Rightarrow> server list \<Rightarrow> string list" where
  "name_matched_ids reference servers =
     concat (map (\<lambda>server.
                    if map_of server ''name'' = Some reference
                    then (case map_of server ''id'' of None \<Rightarrow> [] | Some server_id \<Rightarrow> [server_id])
                    else [])
                 servers)"

section \<open>Command line (\<open>cli.py\<close>)\<close>

subsection \<open>What a command prints and calls\<close>

text \<open>
  A command is modelled by the sequence of its observable actions and its exit status
  (\<open>0\<close> when the function returns, \<open>1\<close> for \<open>sys.exit(1)\<close>). \<open>Echo\<close> is a call
  of \<open>_rich_echo(message, style, symbol)\<close>, whichever of the two console back ends
  prints it; \<open>DepTable\<close> and \<open>ScriptTable\<close> are the listings of dependencies and of
  scripts (a table or plain lines); \<open>InstallPackage\<close> and \<open>RunScript\<close> are the calls
  of \<open>install_package(client, dep)\<close> and \<open>script_runner.run_script(name, params)\<close>.
\<close>

type_synonym params = "(string \<times> string) list"

datatype event =
    Echo string "string option" string
  | BlankLine
  | DepTable "string list"
  | ScriptTable "(string \<times> string) list"
  | InstallPackage string string
  | RunScript string params

definition rich_echo :: "string \<Rightarrow> string \<Rightarrow> string option \<Rightarrow> event" where
  "rich_echo message style symbol = Echo style symbol message"

definition rich_success :: "string \<Rightarrow> string \<Rightarrow> event" where
  "rich_success message symbol = rich_echo message ''success'' (Some symbol)"

definition rich_error :: "string \<Rightarrow> event" where
  "rich_error message = rich_echo message ''error'' (Some ''error'')"

definition rich_info :: "string \<Rightarrow> string \<Rightarrow> event" where
  "rich_info message symbol = rich_echo message ''info'' (Some symbol)"

definition rich_warning :: "string \<Rightarrow> event" where
  "rich_warning message = rich_echo message ''warning'' (Some ''warning'')"

text \<open>What has been printed so far, followed by the outcome of the rest of a command.\<close>

definition prepend :: "event list \<Rightarrow> event list \<times> nat \<Rightarrow> event list \<times> nat" where
  "prepend evs r = (evs @ fst r, snd r)"

text \<open>A text between single quotes, \<open>str(n)\<close> for a length, and \<open>sep.join(xs)\<close>.\<close>

definition quote :: "string \<Rightarrow> string" where
  "quote s = CHR 0x27 # s @ [CHR 0x27]"

fun str_nat :: "nat \<Rightarrow> string" where
  "str_nat n = (if n < 10 then [char_of (48 + n)] else str_nat (n div 10) @ [char_of (48 + n mod 10)])"

declare str_nat.simps [simp del]

fun join :: "string \<Rightarrow> string list \<Rightarrow> string" where
  "join sep [] = []"
| "join sep [x] = x"
| "join sep (x # y # ys) = x @ sep @ join sep (y # ys)"

subsection \<open>The manifest \<open>awd.yml\<close>\<close>

text \<open>
  The value of the key \<open>scripts\<close> of the manifest: a mapping from script name to
  command, in file order, as the manifest format has it, or \<open>None\<close> when the key is
  written with nothing under it (\<open>scripts:\<close>).
\<close>

datatype scripts_value = ScriptsNull | ScriptsTable "(string \<times> string) list"

text \<open>
  The mapping \<open>yaml.safe_load\<close> returns, with the two keys the commands read, each
  possibly missing: \<open>dependencies\<close> (a mapping from a kind such as \<open>mcp\<close> to a list of
  names) and \<open>scripts\<close>.
\<close>

record config =
  dependencies :: "(string \<times> string list) list option"
  scripts :: "scripts_value option"

text \<open>
  The project directory: whether \<open>awd.yml\<close> exists, and what opening and parsing it
  gives: an exception, \<open>None\<close> for an empty document, or a mapping.
\<close>

record project =
  manifest_exists :: bool
  manifest_load :: "exc + config option"

definition load_awd_config :: "project \<Rightarrow> exc + config option" where
  "load_awd_config proj = (if manifest_exists proj then manifest_load proj else Inr None)"

text \<open>
  \<open>_get_default_script\<close>. The test \<open>'start' in config['scripts']\<close> raises
  \<open>TypeError\<close> when the value of \<open>scripts\<close> is \<open>None\<close>.
\<close>

definition get_default_script :: "project \<Rightarrow> exc + string option" where
  "get_default_script proj =
     (case load_awd_config proj of
        Inl e \<Rightarrow> Inl e
      | Inr None \<Rightarrow> Inr None
      | Inr (Some config) \<Rightarrow>
          (case scripts config of
             None \<Rightarrow> Inr None
           | Some ScriptsNull \<Rightarrow>
               Inl (TypeError (''argument of type '' @ quote ''NoneType'' @ '' is not iterable''))
           | Some (ScriptsTable table) \<Rightarrow>
               if map_of table ''start'' \<noteq> None then Inr (Some ''start'') else Inr None))"

text \<open>
  \<open>_list_available_scripts\<close> returns the value of \<open>scripts\<close> as it is, and the
  empty mapping when there is no manifest or no such key.
\<close>

definition list_available_scripts :: "project \<Rightarrow> exc + scripts_value" where
  "list_available_scripts proj =
     (case load_awd_config proj of
        Inl e \<Rightarrow> Inl e
      | Inr None \<Rightarrow> Inr (ScriptsTable [])
      | Inr (Some config) \<Rightarrow>
          (case scripts config of None \<Rightarrow> Inr (ScriptsTable []) | Some v \<Rightarrow> Inr v))"

subsection \<open>\<open>install\<close>\<close>

text \<open>
  \<open>install_package\<close> and \<open>PackageManagerFactory\<close> are imported from modules outside
  these sources, so they are parameters: whether the imports raise, whether
  \<open>create_package_manager()\<close> raises, and, for each call of
  \<open>install_package('vscode', dep)\<close>, what it does given the dependencies attempted
  before it: it raises, or returns \<open>None\<close> or a dictionary of flags.
\<close>

datatype install_outcome = Raised exc | Returned "(string \<times> bool) list option"

record installer =
  core_import :: "exc option"
  create_package_manager :: "exc option"
  install_package :: "string list \<Rightarrow> string \<Rightarrow> string \<Rightarrow> install_outcome"

text \<open>\<open>result and result.get('success')\<close>.\<close>

definition install_succeeded :: "(string \<times> bool) list option \<Rightarrow> bool" where
  "install_succeeded result =
     (case result of None \<Rightarrow> False | Some d \<Rightarrow> d \<noteq> [] \<and> map_of d ''success'' = Some True)"

text \<open>What the body of the loop prints after the call, for each way the call can end.\<close>

definition report_of :: "string \<Rightarrow> install_outcome \<Rightarrow> event" where
  "report_of dep outcome =
     (case outcome of
        Raised install_error \<Rightarrow>
          rich_warning (''Failed to install '' @ dep @ '': '' @ str_exc install_error)
      | Returned result \<Rightarrow>
          if install_succeeded result then rich_success (dep @ '' installed'') ''check''
          else rich_warning (dep @ '' installation may have issues''))"

text \<open>
  The loop \<open>for dep in mcp_deps\<close>; \<open>attempted\<close> are the dependencies of the earlier
  iterations.
\<close>

fun install_loop ::
  "(string list \<Rightarrow> string \<Rightarrow> string \<Rightarrow> install_outcome) \<Rightarrow> string list \<Rightarrow> string list
     \<Rightarrow> event list" where
  "install_loop ip attempted [] = []"
| "install_loop ip attempted (dep # deps) =
     [rich_info (''Installing '' @ dep @ ''...'') ''building'',
      InstallPackage ''vscode'' dep,
      report_of dep (ip attempted ''vscode'' dep)]
     @ install_loop ip (attempted @ [dep]) deps"

text \<open>\<open>config.get('dependencies', {}).get('mcp', [])\<close>.\<close>

definition mcp_deps_of :: "config \<Rightarrow> string list" where
  "mcp_deps_of config =
     (case dependencies config of
        None \<Rightarrow> []
      | Some d \<Rightarrow> (case map_of d ''mcp'' of None \<Rightarrow> [] | Some deps \<Rightarrow> deps))"

text \<open>The outermost handler of \<open>install\<close>.\<close>

definition install_failed :: "exc \<Rightarrow> event list \<times> nat" where
  "install_failed e = ([rich_error (''Error installing dependencies: '' @ str_exc e)], 1)"

text \<open>
  The part of \<open>install\<close> that imports and drives the installer. An \<open>ImportError\<close>
  of the imports or of \<open>create_package_manager()\<close> is caught by the inner handler; any
  other exception there reaches the outermost handler.
\<close>

definition install_deps :: "installer \<Rightarrow> string list \<Rightarrow> event list \<times> nat" where
  "install_deps inst mcp_deps =
     (let complete = [BlankLine, rich_success ''Dependencies installation complete!'' ''sparkles''];
          unavailable =
            [rich_warning ''MCP installation functionality not available yet'',
             rich_info (''Dependencies listed in awd.yml: '' @ join '', '' mcp_deps) ''info'']
      in case core_import inst of
           Some e \<Rightarrow> if is_ImportError e then (unavailable @ complete, 0) else install_failed e
         | None \<Rightarrow>
             (case create_package_manager inst of
                Some e \<Rightarrow> if is_ImportError e then (unavailable @ complete, 0) else install_failed e
              | None \<Rightarrow> (install_loop (install_package inst) [] mcp_deps @ complete, 0)))"

definition install :: "project \<Rightarrow> installer \<Rightarrow> event list \<times> nat" where
  "install proj inst =
     (if \<not> manifest_exists proj
      then ([rich_error ''No awd.yml found. Run 'awd init' first.''], 1)
      else prepend [rich_info ''Installing dependencies from awd.yml...'' ''gear'']
        (case manifest_load proj of
           Inl e \<Rightarrow> install_failed e
         | Inr None \<Rightarrow>
             install_failed (AttributeError
               (quote ''NoneType'' @ '' object has no attribute '' @ quote ''get''))
         | Inr (Some config) \<Rightarrow>
             (let mcp_deps = mcp_deps_of config
              in if mcp_deps = []
                 then ([rich_warning ''No MCP dependencies found in awd.yml''], 0)
                 else prepend
                   [rich_info (''Found '' @ str_nat (length mcp_deps) @ '' MCP dependencies:'') ''info'',
                    DepTable mcp_deps]
                   (install_deps inst mcp_deps))))"



subsection \<open>\<open>run\<close>\<close>

text \<open>
  \<open>p.split('=', 1)\<close> for a token that contains \<open>=\<close>: the text before the first
  \<open>=\<close> and the text after it.
\<close>

definition split_first_eq :: "string \<Rightarrow> string \<times> string" where
  "split_first_eq p =
     (takeWhile (\<lambda>c. c \<noteq> CHR ''='') p, tl (dropWhile (\<lambda>c. c \<noteq> CHR ''='') p))"

text \<open>
  The loop \<open>for p in param\<close> of \<open>run\<close> (and, word for word, of \<open>preview\<close>), from
  the dictionary built so far. \<open>AList.update\<close> is the assignment \<open>params[k] = v\<close>
  on a dictionary in insertion order.
\<close>

fun parse_loop :: "string list \<Rightarrow> params \<Rightarrow> params \<times> event list" where
  "parse_loop [] params = (params, [])"
| "parse_loop (p # ps) params =
     (if CHR ''='' \<in> set p then
        (case split_first_eq p of
           (param_name, val) \<Rightarrow>
             (case parse_loop ps (AList.update param_name val params) of
                (params', evs) \<Rightarrow>
                  (params', rich_echo (''  - '' @ param_name @ '': '' @ val) ''muted'' None # evs)))
      else parse_loop ps params)"

definition parse_params :: "string list \<Rightarrow> params \<times> event list" where
  "parse_params param = parse_loop param []"

text \<open>
  \<open>ScriptRunner\<close> lives in a module outside these sources, so it is a parameter:
  whether importing and constructing it raises, and what \<open>run_script\<close> does (it raises
  or returns the success flag). Only \<open>run_script\<close> starts the subprocess of the script.
\<close>

record script_runner =
  runner_import :: "exc option"
  run_script :: "string \<Rightarrow> params \<Rightarrow> exc + bool"

text \<open>\<open>f"{params}"\<close>, for keys and values that \<open>repr\<close> puts between single quotes unchanged.\<close>

definition repr_params :: "params \<Rightarrow> string" where
  "repr_params params =
     ''{'' @ join '', '' (map (\<lambda>(k, v). quote k @ '': '' @ quote v) params) @ ''}''"

text \<open>The handlers around the use of the script runner in \<open>run\<close>.\<close>

definition runner_failed :: "string \<Rightarrow> params \<Rightarrow> exc \<Rightarrow> event list \<times> nat" where
  "runner_failed script_name params e =
     (if is_ImportError e then
        ([rich_warning ''Script runner not available yet'',
          rich_info (''Import error: '' @ str_exc e) ''info'',
          rich_info (''Would run script: '' @ script_name @ '' with params '' @ repr_params params)
            ''info''], 0)
      else ([rich_error (''Script execution error: '' @ str_exc e)], 1))"

text \<open>\<open>run\<close> from the line \<open>Running script\<close> on, the script name being settled.\<close>

definition run_named :: "script_runner \<Rightarrow> string \<Rightarrow> string list \<Rightarrow> event list \<times> nat" where
  "run_named runner script_name param =
     (case parse_params param of
        (params, echoes) \<Rightarrow>
          prepend (rich_info (''Running script: '' @ script_name) ''running'' # echoes)
            (case runner_import runner of
               Some e \<Rightarrow> runner_failed script_name params e
             | None \<Rightarrow>
                 prepend [RunScript script_name params]
                   (case run_script runner script_name params of
                      Inl e \<Rightarrow> runner_failed script_name params e
                    | Inr success \<Rightarrow>
                        if \<not> success then ([rich_error ''Script execution failed''], 1)
                        else ([BlankLine,
                               rich_success ''Script executed successfully!'' ''sparkles''], 0))))"

text \<open>The outermost handler of \<open>run\<close>.\<close>

definition run_failed :: "exc \<Rightarrow> event list \<times> nat" where
  "run_failed e = ([rich_error (''Error running script: '' @ str_exc e)], 1)"

text \<open>
  The branch of \<open>run\<close> for a missing script name: the default script, or the error
  with the list of the available scripts. Listing calls \<open>scripts.items()\<close>, which
  raises \<open>AttributeError\<close> on \<open>None\<close>.
\<close>

definition run_default :: "project \<Rightarrow> script_runner \<Rightarrow> string list \<Rightarrow> event list \<times> nat" where
  "run_default proj runner param =
     (case get_default_script proj of
        Inl e \<Rightarrow> run_failed e
      | Inr None \<Rightarrow>
          prepend
            [rich_error ''No script specified and no 'start' script defined in awd.yml'',
             rich_info ''Available scripts:'' ''info'']
            (case list_available_scripts proj of
               Inl e \<Rightarrow> run_failed e
             | Inr ScriptsNull \<Rightarrow>
                 run_failed (AttributeError
                   (quote ''NoneType'' @ '' object has no attribute '' @ quote ''items''))
             | Inr (ScriptsTable table) \<Rightarrow> ([ScriptTable table], 1))
      | Inr (Some default_script) \<Rightarrow> run_named runner default_script param)"

text \<open>
  \<open>run\<close>. The script name is an optional argument; \<open>not script_name\<close> holds when
  it is missing or empty.
\<close>

definition run :: "project \<Rightarrow> script_runner \<Rightarrow> string option \<Rightarrow> string list \<Rightarrow> event list \<times> nat" where
  "run proj runner script_name param =
     (case script_name of
        None \<Rightarrow> run_default proj runner param
      | Some name \<Rightarrow> if name = [] then run_default proj runner param else run_named runner name param)"

text \<open>Whether an action is the start of a script.\<close>

fun is_RunScript :: "event \<Rightarrow> bool" where
  "is_RunScript (RunScript name params) = True"
| "is_RunScript ev = False"

text \<open>
  The specification's wording: the manifest has a \<open>start\<close> entry in its scripts
  table. The argument is the parsed manifest, \<open>None\<close> when there is none.
\<close>

definition has_start :: "config option \<Rightarrow> bool" where
  "has_start cfg =
     (\<exists>config table command.
        cfg = Some config \<and> scripts config = Some (ScriptsTable table)
        \<and> (''start'', command) \<in> set table)"

text \<open>Whether the manifest has the key \<open>scripts\<close> with the value \<open>None\<close>.\<close>

definition scripts_is_null :: "config option \<Rightarrow> bool" where
  "scripts_is_null cfg =
     (case cfg of None \<Rightarrow> False | Some config \<Rightarrow> scripts config = Some ScriptsNull)"

subsection \<open>\<open>preview\<close>\<close>

text \<open>
  \<open>preview\<close> resolves the script name as \<open>run\<close> does (without listing the
  scripts when there is no default) and runs the same loop over \<open>param\<close>. What
  follows the loop (the look-up of the script through \<open>ScriptRunner\<close>, the compilation
  of its prompts with the parsed parameters, the panels, and the handlers around them)
  reads the command line only through the script name and the parsed parameters; it is
  the parameter \<open>display\<close>.
\<close>

definition preview_failed :: "exc \<Rightarrow> event list \<times> nat" where
  "preview_failed e = ([rich_error (''Error previewing script: '' @ str_exc e)], 1)"

definition preview_named ::
  "(string \<Rightarrow> params \<Rightarrow> event list \<times> nat) \<Rightarrow> string \<Rightarrow> string list \<Rightarrow> event list \<times> nat" where
  "preview_named display script_name param =
     (case parse_params param of
        (params, echoes) \<Rightarrow>
          prepend (rich_info (''Previewing script: '' @ script_name) ''info'' # echoes)
            (display script_name params))"

definition preview_default ::
  "project \<Rightarrow> (string \<Rightarrow> params \<Rightarrow> event list \<times> nat) \<Rightarrow> string list \<Rightarrow> event list \<times> nat" where
  "preview_default proj display param =
     (case get_default_script proj of
        Inl e \<Rightarrow> preview_failed e
      | Inr None \<Rightarrow>
          ([rich_error ''No script specified and no 'start' script defined in awd.yml''], 1)
      | Inr (Some default_script) \<Rightarrow> preview_named display default_script param)"

definition preview ::
  "project \<Rightarrow> (string \<Rightarrow> params \<Rightarrow> event list \<times> nat) \<Rightarrow> string option \<Rightarrow> string list
     \<Rightarrow> event list \<times> nat" where
  "preview proj display script_name param =
     (case script_name of
        None \<Rightarrow> preview_default proj display param
      | Some name \<Rightarrow>
          if name = [] then preview_default proj display param
          else preview_named display name param)"

section \<open>Concrete inputs\<close>

subsection \<open>Machines\<close>

text \<open>
  On \<open>dir_fs\<close> the managed path of \<open>codex\<close> is a directory (the case
  \<open>remove_runtime\<close> handles with \<open>shutil.rmtree\<close>) and nothing is on the system
  path. On \<open>on_path_fs\<close> the managed directory is empty and \<open>llm\<close> is installed
  system-wide.
\<close>

definition dir_fs :: filesystem where
  "dir_fs = \<lparr>home = ''/home/u'',
             node_at = (\<lambda>p. if p = ''/home/u/.awd/runtimes/codex'' then Some Directory else None),
             executable = (\<lambda>p. False),
             which = (\<lambda>b. None),
             run_version = (\<lambda>p. ProcRaised)\<rparr>"

definition on_path_fs :: filesystem where
  "on_path_fs = \<lparr>home = ''/home/u'',
             node_at = (\<lambda>p. if p = ''/usr/bin/llm'' then Some RegularFile else None),
             executable = (\<lambda>p. p = ''/usr/bin/llm''),
             which = (\<lambda>b. if b = ''llm'' then Some ''/usr/bin/llm'' else None),
             run_version = (\<lambda>p. Completed 0 ''llm, version 0.26'')\<rparr>"

text \<open>A machine where \<open>codex\<close> is installed in the managed directory.\<close>

definition managed_fs :: filesystem where
  "managed_fs = \<lparr>home = ''/home/u'',
             node_at = (\<lambda>p. if p = ''/home/u/.awd/runtimes/codex'' then Some RegularFile else None),
             executable = (\<lambda>p. p = ''/home/u/.awd/runtimes/codex''),
             which = (\<lambda>b. None),
             run_version = (\<lambda>p. Completed 0 (''codex-cli 0.1.0'' @ [CHR 0x0A]))\<rparr>"

text \<open>
  A machine where a directory is at the managed path of \<open>codex\<close> and \<open>codex\<close> is
  also installed system-wide.
\<close>

definition dir_and_path_fs :: filesystem where
  "dir_and_path_fs = \<lparr>home = ''/home/u'',
             node_at = (\<lambda>p. if p = ''/home/u/.awd/runtimes/codex'' then Some Directory
                             else if p = ''/usr/local/bin/codex'' then Some RegularFile
                             else None),
             executable = (\<lambda>p. p = ''/usr/local/bin/codex''),
             which = (\<lambda>b. if b = ''codex'' then Some ''/usr/local/bin/codex'' else None),
             run_version = (\<lambda>p. ProcRaised)\<rparr>"

subsection \<open>Registries\<close>

definition demo_first_page :: listing_body where
  "demo_first_page =
     \<lparr>body_servers = Some [[(''id'', ''1''), (''name'', ''GitHub''),
                            (''description'', ''Repos and issues'')],
                           [(''id'', ''2''), (''name'', ''files''),
                            (''description'', ''Local FILE access'')],
                           [(''name'', ''files'')],
                           [(''id'', ''4''), (''name'', ''files'')]],
       body_metadata = Some [(''next_cursor'', ''p2'')]\<rparr>"

definition demo_registry :: registry where
  "demo_registry =
     \<lparr>respond_listing = (\<lambda>limit cursor.
         if cursor = None then Inr demo_first_page
         else Inr \<lparr>body_servers = Some [[(''id'', ''5''), (''name'', ''filesystem'')]],
                   body_metadata = None\<rparr>),
       respond_server = (\<lambda>server_id.
         if server_id = ''4'' then Inr [(''id'', ''4''), (''name'', ''files''), (''version'', ''1.0'')]
         else if server_id = ''123e4567-e89b-12d3-a456-426614174000''
           then Inr [(''id'', server_id), (''name'', ''by-id'')]
         else Inl (RequestException ''404 Client Error''))\<rparr>"

text \<open>A registry whose listing endpoint is down.\<close>

definition down_registry :: registry where
  "down_registry =
     \<lparr>respond_listing = (\<lambda>limit cursor. Inl (RequestException ''503 Server Error'')),
       respond_server = (\<lambda>server_id. Inl (RequestException ''503 Server Error''))\<rparr>"

text \<open>
  A registry with 101 servers. The listing with limit 100 and no cursor returns the
  servers \<open>server-0\<close> to \<open>server-99\<close> and the cursor \<open>p2\<close>; the page at that
  cursor holds the last server, \<open>filesystem\<close>, whose details can be fetched.
\<close>

definition paged_first_page :: "server list" where
  "paged_first_page =
     map (\<lambda>n. [(''id'', ''s'' @ str_nat n), (''name'', ''server-'' @ str_nat n)]) [0..<100]"

definition paged_registry :: registry where
  "paged_registry =
     \<lparr>respond_listing = (\<lambda>limit cursor.
         if cursor = None
           then Inr \<lparr>body_servers = Some paged_first_page,
                     body_metadata = Some [(''next_cursor'', ''p2'')]\<rparr>
         else if cursor = Some ''p2''
           then Inr \<lparr>body_servers = Some [[(''id'', ''s100''), (''name'', ''filesystem'')]],
                     body_metadata = Some []\<rparr>
         else Inl (RequestException ''400 Client Error'')),
       respond_server = (\<lambda>server_id.
         if server_id = ''s100''
           then Inr [(''id'', ''s100''), (''name'', ''filesystem''), (''version'', ''2.1'')]
         else Inl (RequestException ''404 Client Error''))\<rparr>"

subsection \<open>Projects, installers and script runners\<close>



text \<open>Projects without and with a \<open>start\<close> script, and a script runner that works.\<close>

definition no_start_project :: project where
  "no_start_project =
     \<lparr>manifest_exists = True,
       manifest_load = Inr (Some \<lparr>dependencies = None,
                                  scripts = Some (ScriptsTable
                                    [(''fast'', ''llm prompt main.prompt.md'')])\<rparr>)\<rparr>"

definition start_project :: project where
  "start_project =
     \<lparr>manifest_exists = True,
       manifest_load = Inr (Some \<lparr>dependencies = None,
                                  scripts = Some (ScriptsTable
                                    [(''start'', ''codex run main.prompt.md'')])\<rparr>)\<rparr>"

text \<open>A project whose manifest has the key \<open>scripts\<close> with nothing under it.\<close>

definition null_scripts_project :: project where
  "null_scripts_project =
     \<lparr>manifest_exists = True,
       manifest_load = Inr (Some \<lparr>dependencies = None, scripts = Some ScriptsNull\<rparr>)\<rparr>"

definition good_runner :: script_runner where
  "good_runner = \<lparr>runner_import = None, run_script = (\<lambda>name params. Inr True)\<rparr>"

section \<open>Properties of the runtime manager\<close>

lemma first_available_find:
  "fst (first_available fs rs) = find (\<lambda>r. fst (is_runtime_available fs r)) rs"
  by (induction rs) (auto split: prod.splits bool.splits)

lemma on_path_fs_codex:
  "is_runtime_available on_path_fs ''codex''
     = (False, [Exists ''/home/u/.awd/runtimes/codex'', Which ''codex''])"
  by (simp add: is_runtime_available_def supported_runtimes_def on_path_fs_def
      path_exists_def path_is_file_def runtime_dir_def joinpath_def Let_def)

lemma on_path_fs_llm:
  "is_runtime_available on_path_fs ''llm''
     = (True, [Exists ''/home/u/.awd/runtimes/llm'', Which ''llm''])"
  by (simp add: is_runtime_available_def supported_runtimes_def on_path_fs_def
      path_exists_def path_is_file_def runtime_dir_def joinpath_def Let_def)

text \<open>
  Claim C4. \<open>get_available_runtime\<close> returns the first name of the fixed preference
  order \<open>codex\<close>, \<open>llm\<close> that \<open>is_runtime_available\<close> accepts, and none when it
  accepts neither; when it accepts both, the answer is \<open>codex\<close>.
\<close>

theorem get_available_runtime_first_preferred:
  "fst (get_available_runtime fs) =
     (if fst (is_runtime_available fs ''codex'') then Some ''codex''
      else if fst (is_runtime_available fs ''llm'') then Some ''llm''
      else None)"
proof -
  have "fst (get_available_runtime fs) =
          find (\<lambda>r. fst (is_runtime_available fs r)) [''codex'', ''llm'']"
    unfolding get_available_runtime_def get_runtime_preference_def
    by (rule first_available_find)
  then show ?thesis by simp
qed

theorem get_available_runtime_first_preferred_witness:
  "fst (get_available_runtime on_path_fs) = Some ''llm''
   \<and> \<not> fst (is_runtime_available on_path_fs ''codex'')
   \<and> fst (is_runtime_available on_path_fs ''llm'')"
  using get_available_runtime_first_preferred [of on_path_fs]
  by (simp add: on_path_fs_codex on_path_fs_llm)

text \<open>
  Claim C6. For a supported runtime name, \<open>is_runtime_available\<close> is true exactly
  when the managed path of the runtime's binary is a regular file or \<open>shutil.which\<close>
  finds the binary; the managed path is asked first, and \<open>shutil.which\<close> is asked
  only when the managed path is not a regular file. For any other name the answer is
  false and nothing is asked.
\<close>

theorem is_runtime_available_spec:
  "(map_of supported_runtimes name = Some info \<longrightarrow>
      (fst (is_runtime_available fs name) \<longleftrightarrow>
         node_at fs (joinpath (runtime_dir fs) (info_binary info)) = Some RegularFile
         \<or> which fs (info_binary info) \<noteq> None)
      \<and> snd (is_runtime_available fs name) =
          Exists (joinpath (runtime_dir fs) (info_binary info))
          # (if node_at fs (joinpath (runtime_dir fs) (info_binary info)) \<noteq> None
             then [IsFile (joinpath (runtime_dir fs) (info_binary info))] else [])
          @ (if node_at fs (joinpath (runtime_dir fs) (info_binary info)) = Some RegularFile
             then [] else [Which (info_binary info)]))
   \<and> (map_of supported_runtimes name = None \<longrightarrow> is_runtime_available fs name = (False, []))"
  by (auto simp: is_runtime_available_def path_exists_def path_is_file_def Let_def)

theorem is_runtime_available_spec_witness:
  "map_of supported_runtimes ''llm'' =
     Some \<lparr>info_script = ''setup-llm.sh'',
           info_description = ''Simon Willison's LLM library with multiple providers'',
           info_binary = ''llm''\<rparr>
   \<and> is_runtime_available on_path_fs ''llm''
       = (True, [Exists ''/home/u/.awd/runtimes/llm'', Which ''llm''])
   \<and> map_of supported_runtimes ''python'' = None
   \<and> is_runtime_available on_path_fs ''python'' = (False, [])"
proof -
  let ?info = "\<lparr>info_script = ''setup-llm.sh'',
           info_description = ''Simon Willison's LLM library with multiple providers'',
           info_binary = ''llm''\<rparr>"
  have h1: "map_of supported_runtimes ''llm'' = Some ?info"
    by (simp add: supported_runtimes_def)
  have h2: "map_of supported_runtimes ''python'' = None"
    by (simp add: supported_runtimes_def)
  have fs: "node_at on_path_fs ''/home/u/.awd/runtimes/llm'' = None"
           "which on_path_fs ''llm'' = Some ''/usr/bin/llm''"
           "joinpath (runtime_dir on_path_fs) ''llm'' = ''/home/u/.awd/runtimes/llm''"
    by (simp_all add: on_path_fs_def runtime_dir_def joinpath_def)
  from is_runtime_available_spec [of "''llm''" ?info on_path_fs] h1 fs
  have a: "is_runtime_available on_path_fs ''llm''
             = (True, [Exists ''/home/u/.awd/runtimes/llm'', Which ''llm''])"
    by (simp add: prod_eq_iff)
  from is_runtime_available_spec [of "''python''" ?info on_path_fs] h2
  have b: "is_runtime_available on_path_fs ''python'' = (False, [])"
    by simp
  from h1 h2 a b show ?thesis by simp
qed

lemma status_installed:
  "installed (runtime_status_of fs info)
     = path_exists fs (joinpath (runtime_dir fs) (info_binary info))"
  by (simp add: runtime_status_of_def Let_def split: proc_result.splits)

lemma status_path:
  "path (runtime_status_of fs info) =
     (if path_exists fs (joinpath (runtime_dir fs) (info_binary info))
      then Some (joinpath (runtime_dir fs) (info_binary info)) else None)"
  by (simp add: runtime_status_of_def Let_def split: proc_result.splits)

lemma list_runtimes_dir_fs_codex:
  "map_of (list_runtimes dir_fs) ''codex'' =
     Some \<lparr>description = ''OpenAI Codex CLI with GitHub Models support'',
           installed = True, path = Some ''/home/u/.awd/runtimes/codex'',
           version = Some ''unknown''\<rparr>"
  by (simp add: list_runtimes_def supported_runtimes_def runtime_status_of_def dir_fs_def
      path_exists_def runtime_dir_def joinpath_def)

text \<open>
  Claim C7, as stated, fails: \<open>list_runtimes\<close> asks only \<open>exists()\<close>. On
  \<open>dir_fs\<close> it reports \<open>codex\<close> as installed, with a path that is a directory
  and has no execute permission.
\<close>

theorem list_runtimes_installed_not_executable_file:
  "map_of (list_runtimes dir_fs) ''codex'' =
     Some \<lparr>description = ''OpenAI Codex CLI with GitHub Models support'',
           installed = True, path = Some ''/home/u/.awd/runtimes/codex'',
           version = Some ''unknown''\<rparr>
   \<and> node_at dir_fs ''/home/u/.awd/runtimes/codex'' = Some Directory
   \<and> \<not> executable dir_fs ''/home/u/.awd/runtimes/codex''"
  by (simp add: list_runtimes_dir_fs_codex) (simp add: dir_fs_def)

text \<open>
  Claim C7, amended. \<open>list_runtimes\<close> has one record for each supported runtime, in
  the order \<open>codex\<close>, \<open>llm\<close>. In each record \<open>installed\<close> is true exactly when
  the binary's path under the managed runtime directory exists (as a file of any kind);
  then \<open>path\<close> is that path, and otherwise \<open>path\<close> is none.
\<close>

theorem list_runtimes_installed_iff_exists:
  "map fst (list_runtimes fs) = [''codex'', ''llm'']
   \<and> (\<forall>(name, st) \<in> set (list_runtimes fs).
        (installed st \<longrightarrow>
           path st = Some (joinpath (runtime_dir fs) name)
           \<and> node_at fs (joinpath (runtime_dir fs) name) \<noteq> None)
        \<and> (\<not> installed st \<longrightarrow>
           path st = None \<and> node_at fs (joinpath (runtime_dir fs) name) = None))"
  by (simp add: list_runtimes_def supported_runtimes_def status_installed status_path
      path_exists_def)

theorem list_runtimes_installed_iff_exists_witness:
  "(''codex'', \<lparr>description = ''OpenAI Codex CLI with GitHub Models support'',
           installed = True, path = Some ''/home/u/.awd/runtimes/codex'',
           version = Some ''unknown''\<rparr>) \<in> set (list_runtimes dir_fs)
   \<and> node_at dir_fs (joinpath (runtime_dir dir_fs) ''codex'') \<noteq> None
   \<and> (''llm'', \<lparr>description = ''Simon Willison's LLM library with multiple providers'',
           installed = False, path = None, version = None\<rparr>) \<in> set (list_runtimes dir_fs)
   \<and> node_at dir_fs (joinpath (runtime_dir dir_fs) ''llm'') = None"
proof -
  have m: "(''codex'', \<lparr>description = ''OpenAI Codex CLI with GitHub Models support'',
           installed = True, path = Some ''/home/u/.awd/runtimes/codex'',
           version = Some ''unknown''\<rparr>) \<in> set (list_runtimes dir_fs)"
       "(''llm'', \<lparr>description = ''Simon Willison's LLM library with multiple providers'',
           installed = False, path = None, version = None\<rparr>) \<in> set (list_runtimes dir_fs)"
    by (simp_all add: list_runtimes_def supported_runtimes_def runtime_status_of_def dir_fs_def
        path_exists_def runtime_dir_def joinpath_def)
  from list_runtimes_installed_iff_exists [of dir_fs] m show ?thesis
    by fastforce
qed

text \<open>
  Claim C10, as stated, fails in its first half: on \<open>dir_fs\<close>, \<open>list_runtimes\<close>
  reports \<open>codex\<close> as installed while \<open>is_runtime_available\<close> is false for it,
  because only the latter asks \<open>is_file()\<close>.
\<close>

theorem installed_but_not_available:
  "map_of (list_runtimes dir_fs) ''codex'' =
     Some \<lparr>description = ''OpenAI Codex CLI with GitHub Models support'',
           installed = True, path = Some ''/home/u/.awd/runtimes/codex'',
           version = Some ''unknown''\<rparr>
   \<and> is_runtime_available dir_fs ''codex''
       = (False, [Exists ''/home/u/.awd/runtimes/codex'',
                  IsFile ''/home/u/.awd/runtimes/codex'', Which ''codex''])"
  by (simp add: list_runtimes_dir_fs_codex)
     (simp add: is_runtime_available_def supported_runtimes_def dir_fs_def
      path_exists_def path_is_file_def runtime_dir_def joinpath_def Let_def)

text \<open>
  Claim C10, amended. For a supported runtime, \<open>list_runtimes\<close> reporting it as
  installed implies that \<open>is_runtime_available\<close> is true, except in exactly one kind
  of state: something that is not a regular file (a directory) exists at the managed
  path and no executable of that name is on the system path. The converse fails: on
  \<open>on_path_fs\<close>, where \<open>llm\<close> is only on the system path, \<open>list_runtimes\<close>
  reports \<open>llm\<close> as not installed while \<open>is_runtime_available\<close> is true for it
  and \<open>get_available_runtime\<close> selects it.
\<close>

theorem installed_implies_available_except_non_file:
  "(map_of (list_runtimes fs) name = Some st \<longrightarrow>
      ((installed st \<and> \<not> fst (is_runtime_available fs name)) \<longleftrightarrow>
         (node_at fs (joinpath (runtime_dir fs) name) \<noteq> None
          \<and> node_at fs (joinpath (runtime_dir fs) name) \<noteq> Some RegularFile
          \<and> which fs name = None)))
   \<and> (\<exists>st'. map_of (list_runtimes on_path_fs) ''llm'' = Some st' \<and> \<not> installed st'
          \<and> fst (is_runtime_available on_path_fs ''llm'')
          \<and> fst (get_available_runtime on_path_fs) = Some ''llm'')"
proof (intro conjI impI)
  assume a: "map_of (list_runtimes fs) name = Some st"
  then have "name = ''codex'' \<or> name = ''llm''"
    by (auto simp: list_runtimes_def supported_runtimes_def split: if_splits)
  then show "(installed st \<and> \<not> fst (is_runtime_available fs name)) \<longleftrightarrow>
         (node_at fs (joinpath (runtime_dir fs) name) \<noteq> None
          \<and> node_at fs (joinpath (runtime_dir fs) name) \<noteq> Some RegularFile
          \<and> which fs name = None)"
  proof
    assume n: "name = ''codex''"
    with a have "st = runtime_status_of fs (snd (hd supported_runtimes))"
      by (simp add: list_runtimes_def supported_runtimes_def)
    then have "installed st = path_exists fs (joinpath (runtime_dir fs) ''codex'')"
      by (simp add: status_installed supported_runtimes_def)
    with n show ?thesis
      by (auto simp: is_runtime_available_def supported_runtimes_def path_exists_def
          path_is_file_def Let_def)
  next
    assume n: "name = ''llm''"
    with a have "st = runtime_status_of fs (snd (hd (tl supported_runtimes)))"
      by (simp add: list_runtimes_def supported_runtimes_def)
    then have "installed st = path_exists fs (joinpath (runtime_dir fs) ''llm'')"
      by (simp add: status_installed supported_runtimes_def)
    with n show ?thesis
      by (auto simp: is_runtime_available_def supported_runtimes_def path_exists_def
          path_is_file_def Let_def)
  qed
next
  note avail = on_path_fs_codex on_path_fs_llm
  have "map_of (list_runtimes on_path_fs) ''llm'' =
          Some \<lparr>description = ''Simon Willison's LLM library with multiple providers'',
                installed = False, path = None, version = None\<rparr>"
    by (simp add: list_runtimes_def supported_runtimes_def runtime_status_of_def on_path_fs_def
        path_exists_def runtime_dir_def joinpath_def)
  moreover have "fst (get_available_runtime on_path_fs) = Some ''llm''"
    by (simp add: get_available_runtime_def get_runtime_preference_def avail)
  ultimately show "\<exists>st'. map_of (list_runtimes on_path_fs) ''llm'' = Some st' \<and> \<not> installed st'
          \<and> fst (is_runtime_available on_path_fs ''llm'')
          \<and> fst (get_available_runtime on_path_fs) = Some ''llm''"
    by (simp add: avail)
qed

theorem installed_implies_available_except_non_file_witness:
  "map_of (list_runtimes managed_fs) ''codex'' =
     Some \<lparr>description = ''OpenAI Codex CLI with GitHub Models support'',
           installed = True, path = Some ''/home/u/.awd/runtimes/codex'',
           version = Some ''codex-cli 0.1.0''\<rparr>
   \<and> node_at managed_fs ''/home/u/.awd/runtimes/codex'' = Some RegularFile
   \<and> fst (is_runtime_available managed_fs ''codex'')
   \<and> map_of (list_runtimes dir_and_path_fs) ''codex'' =
     Some \<lparr>description = ''OpenAI Codex CLI with GitHub Models support'',
           installed = True, path = Some ''/home/u/.awd/runtimes/codex'',
           version = Some ''unknown''\<rparr>
   \<and> node_at dir_and_path_fs ''/home/u/.awd/runtimes/codex'' = Some Directory
   \<and> which dir_and_path_fs ''codex'' = Some ''/usr/local/bin/codex''
   \<and> fst (is_runtime_available dir_and_path_fs ''codex'')"
proof -
  let ?st = "\<lparr>description = ''OpenAI Codex CLI with GitHub Models support'',
           installed = True, path = Some ''/home/u/.awd/runtimes/codex'',
           version = Some ''codex-cli 0.1.0''\<rparr>"
  let ?st2 = "\<lparr>description = ''OpenAI Codex CLI with GitHub Models support'',
           installed = True, path = Some ''/home/u/.awd/runtimes/codex'',
           version = Some ''unknown''\<rparr>"
  have p: "joinpath (runtime_dir managed_fs) ''codex'' = ''/home/u/.awd/runtimes/codex''"
          "joinpath (runtime_dir dir_and_path_fs) ''codex'' = ''/home/u/.awd/runtimes/codex''"
    by (simp_all add: managed_fs_def dir_and_path_fs_def runtime_dir_def joinpath_def)
  have l: "map_of (list_runtimes managed_fs) ''codex'' = Some ?st"
    by (simp add: list_runtimes_def supported_runtimes_def runtime_status_of_def p path_exists_def)
       (simp add: managed_fs_def strip_def is_space_def)
  have l2: "map_of (list_runtimes dir_and_path_fs) ''codex'' = Some ?st2"
    by (simp add: list_runtimes_def supported_runtimes_def runtime_status_of_def p path_exists_def)
       (simp add: dir_and_path_fs_def)
  have n: "node_at managed_fs ''/home/u/.awd/runtimes/codex'' = Some RegularFile"
          "node_at dir_and_path_fs ''/home/u/.awd/runtimes/codex'' = Some Directory"
          "which dir_and_path_fs ''codex'' = Some ''/usr/local/bin/codex''"
    by (simp_all add: managed_fs_def dir_and_path_fs_def)
  from installed_implies_available_except_non_file [of managed_fs "''codex''" ?st] l n p
  have 1: "fst (is_runtime_available managed_fs ''codex'')"
    by simp
  from installed_implies_available_except_non_file [of dir_and_path_fs "''codex''" ?st2] l2 n p
  have 2: "fst (is_runtime_available dir_and_path_fs ''codex'')"
    by simp
  from l l2 n 1 2 show ?thesis by simp
qed

section \<open>Properties of the registry client\<close>


lemma get_server_info_log: "snd (get_server_info reg i) = [GetServer i]"
  by (simp add: get_server_info_def split: sum.splits)

lemma list_servers_log: "snd (list_servers reg l c) = [GetServers l c]"
  by (simp add: list_servers_def Let_def split: sum.splits)

lemma list_servers_result:
  "fst (list_servers reg l c) =
     (case respond_listing reg l c of Inl e \<Rightarrow> Inl e
      | Inr data \<Rightarrow> Inr (listed_servers data,
           map_of (case body_metadata data of None \<Rightarrow> [] | Some m \<Rightarrow> m) ''next_cursor''))"
  by (simp add: list_servers_def Let_def split: sum.splits)

lemma exact_name_match_log:
  "\<exists>rest. snd (exact_name_match reg reference) = GetServers (Some 100) None # rest"
  using list_servers_log[of reg "Some 100" None]
  by (auto simp: exact_name_match_def split: sum.splits prod.splits)

lemma exact_name_match_result:
  "fst (exact_name_match reg reference) =
     (case respond_listing reg (Some 100) None of
        Inl e \<Rightarrow> Inl e
      | Inr data \<Rightarrow> Inr (fst (scan_by_name reg reference (listed_servers data))))"
  using list_servers_result[of reg "Some 100" None]
  by (auto simp: exact_name_match_def split: sum.splits prod.splits)




lemma find_uuid_ok:
  "looks_like_uuid reference \<Longrightarrow> fst (get_server_info reg reference) = Inr info \<Longrightarrow>
     find_server_by_reference reg reference = (Inr (Some info), [GetServer reference])"
  using get_server_info_log[of reg reference]
  by (auto simp: find_server_by_reference_def split: prod.splits sum.splits)

lemma find_uuid_fail:
  "looks_like_uuid reference \<Longrightarrow> fst (get_server_info reg reference) = Inl e \<Longrightarrow>
     find_server_by_reference reg reference
       = (fst (exact_name_match reg reference),
          GetServer reference # snd (exact_name_match reg reference))"
  using get_server_info_log[of reg reference]
  by (auto simp: find_server_by_reference_def split: prod.splits sum.splits)

lemma find_not_uuid:
  "\<not> looks_like_uuid reference \<Longrightarrow>
     find_server_by_reference reg reference = exact_name_match reg reference"
  by (simp add: find_server_by_reference_def)

lemma find_log_head:
  "(\<exists>rest. snd (find_server_by_reference reg reference) = GetServer reference # rest)
     \<longleftrightarrow> looks_like_uuid reference"
proof (cases "looks_like_uuid reference")
  case True
  then show ?thesis
    by (cases "fst (get_server_info reg reference)") (simp_all add: find_uuid_ok find_uuid_fail)
next
  case False
  then show ?thesis
    using exact_name_match_log[of reg reference] by (auto simp: find_not_uuid)
qed

lemma get_server_info_details:
  "fst (get_server_info reg server_id) = Inr info \<longleftrightarrow> details reg server_id = Some info"
  by (auto simp: get_server_info_def details_def split: sum.splits if_splits)

lemma get_server_info_fails:
  "(\<exists>e. fst (get_server_info reg server_id) = Inl e) \<longleftrightarrow> details reg server_id = None"
  by (auto simp: get_server_info_def details_def split: sum.splits if_splits)

lemma scan_by_name_ids:
  "scan_by_name reg reference servers =
     (case dropWhile (\<lambda>i. details reg i = None) (name_matched_ids reference servers) of
        [] \<Rightarrow> None
      | i # rest \<Rightarrow> details reg i,
      map GetServer
        (takeWhile (\<lambda>i. details reg i = None) (name_matched_ids reference servers)
         @ take 1 (dropWhile (\<lambda>i. details reg i = None) (name_matched_ids reference servers))))"
proof (induction servers)
  case Nil
  show ?case by (simp add: name_matched_ids_def)
next
  case (Cons server servers)
  have ids: "name_matched_ids reference (server # servers) =
               (if map_of server ''name'' = Some reference
                then (case map_of server ''id'' of None \<Rightarrow> [] | Some server_id \<Rightarrow> [server_id])
                else [])
               @ name_matched_ids reference servers"
    by (simp add: name_matched_ids_def)
  show ?case
  proof (cases "map_of server ''name'' = Some reference")
    case False
    with Cons.IH ids show ?thesis by simp
  next
    case True
    show ?thesis
    proof (cases "map_of server ''id''")
      case None
      with True Cons.IH ids show ?thesis by simp
    next
      case (Some server_id)
      show ?thesis
      proof (cases "details reg server_id")
        case None
        then obtain e where "fst (get_server_info reg server_id) = Inl e"
          using get_server_info_fails [of reg server_id] by blast
        with get_server_info_log [of reg server_id]
        have "get_server_info reg server_id = (Inl e, [GetServer server_id])"
          by (simp add: prod_eq_iff)
        with True Some None Cons.IH ids show ?thesis by simp
      next
        case (Some info)
        then have "fst (get_server_info reg server_id) = Inr info"
          by (simp add: get_server_info_details)
        with get_server_info_log [of reg server_id]
        have "get_server_info reg server_id = (Inr info, [GetServer server_id])"
          by (simp add: prod_eq_iff)
        with True \<open>map_of server ''id'' = Some server_id\<close> Some ids show ?thesis by simp
      qed
    qed
  qed
qed

lemma exact_name_match_ids:
  "exact_name_match reg reference =
     (case respond_listing reg (Some 100) None of
        Inl e \<Rightarrow> (Inl e, [GetServers (Some 100) None])
      | Inr data \<Rightarrow>
          (Inr (case dropWhile (\<lambda>i. details reg i = None)
                       (name_matched_ids reference (listed_servers data)) of
                  [] \<Rightarrow> None
                | i # rest \<Rightarrow> details reg i),
           GetServers (Some 100) None
           # map GetServer
               (takeWhile (\<lambda>i. details reg i = None)
                  (name_matched_ids reference (listed_servers data))
                @ take 1 (dropWhile (\<lambda>i. details reg i = None)
                            (name_matched_ids reference (listed_servers data))))))"
  by (simp add: exact_name_match_def list_servers_def scan_by_name_ids Let_def split: sum.splits)

lemma case_take_Suc_0:
  "(case take (Suc 0) xs of [] \<Rightarrow> None | i # rest \<Rightarrow> f i)
     = (case xs of [] \<Rightarrow> None | i # rest \<Rightarrow> f i)"
  by (cases xs) simp_all

lemma find_server_by_reference_exact:
  "find_server_by_reference reg reference =
       (let direct = looks_like_uuid reference;
            direct_request = (if direct then [GetServer reference] else [])
        in if direct \<and> details reg reference \<noteq> None
           then (Inr (details reg reference), direct_request)
           else
             (case respond_listing reg (Some 100) None of
                Inl e \<Rightarrow> (Inl e, direct_request @ [GetServers (Some 100) None])
              | Inr data \<Rightarrow>
                  (let ids = name_matched_ids reference (listed_servers data);
                       failed = takeWhile (\<lambda>i. details reg i = None) ids;
                       found = take 1 (dropWhile (\<lambda>i. details reg i = None) ids)
                   in (Inr (case found of [] \<Rightarrow> None | i # rest \<Rightarrow> details reg i),
                       direct_request @ GetServers (Some 100) None
                         # map GetServer (failed @ found)))))"
proof (cases "looks_like_uuid reference")
  case False
  then show ?thesis
    by (simp add: find_not_uuid exact_name_match_ids case_take_Suc_0 Let_def split: sum.splits)
next
  case True
  show ?thesis
  proof (cases "details reg reference")
    case None
    then obtain e where "fst (get_server_info reg reference) = Inl e"
      using get_server_info_fails [of reg reference] by blast
    with True have "find_server_by_reference reg reference
                      = (fst (exact_name_match reg reference),
                         GetServer reference # snd (exact_name_match reg reference))"
      by (rule find_uuid_fail)
    with True None show ?thesis
      by (simp add: exact_name_match_ids case_take_Suc_0 Let_def split: sum.splits)
  next
    case (Some info)
    then have "fst (get_server_info reg reference) = Inr info"
      by (simp add: get_server_info_details)
    with True have "find_server_by_reference reg reference
                      = (Inr (Some info), [GetServer reference])"
      by (rule find_uuid_ok)
    with True Some show ?thesis by (simp add: Let_def)
  qed
qed

text \<open>
  Claim C2, as stated, fails where it says that the scan is over the full listing. In
  \<open>paged_registry\<close> the server \<open>filesystem\<close> is listed on the page that the cursor
  of the first page leads to, and its details can be fetched; but
  \<open>find_server_by_reference\<close> sends the one listing request without a cursor, drops
  the cursor of the answer, and returns none.
\<close>

theorem find_server_by_reference_misses_second_page:
  "find_server_by_reference paged_registry ''filesystem''
     = (Inr None, [GetServers (Some 100) None])
   \<and> list_servers paged_registry (Some 100) None
       = (Inr (paged_first_page, Some ''p2''), [GetServers (Some 100) None])
   \<and> list_servers paged_registry (Some 100) (Some ''p2'')
       = (Inr ([[(''id'', ''s100''), (''name'', ''filesystem'')]], None),
          [GetServers (Some 100) (Some ''p2'')])
   \<and> get_server_info paged_registry ''s100''
       = (Inr [(''id'', ''s100''), (''name'', ''filesystem''), (''version'', ''2.1'')],
          [GetServer ''s100''])"
proof -
  have 1: "find_server_by_reference paged_registry ''filesystem''
             = (Inr None, [GetServers (Some 100) None])"
    by code_simp
  have 2: "list_servers paged_registry (Some 100) None
       = (Inr (paged_first_page, Some ''p2''), [GetServers (Some 100) None])"
    by (simp add: list_servers_def paged_registry_def listed_servers_def)
  have 3: "list_servers paged_registry (Some 100) (Some ''p2'')
       = (Inr ([[(''id'', ''s100''), (''name'', ''filesystem'')]], None),
          [GetServers (Some 100) (Some ''p2'')])"
    by (simp add: list_servers_def paged_registry_def listed_servers_def)
  have 4: "get_server_info paged_registry ''s100''
       = (Inr [(''id'', ''s100''), (''name'', ''filesystem''), (''version'', ''2.1'')],
          [GetServer ''s100''])"
    by (simp add: get_server_info_def paged_registry_def)
  from 1 2 3 4 show ?thesis by simp
qed

text \<open>
  Claim C2, amended. \<open>find_server_by_reference\<close> makes the direct lookup of the
  reference first exactly when the reference has 36 characters and four hyphens,
  whatever the registry holds, and returns its details when that lookup succeeds.
  For any other reference, and when the direct lookup fails, it goes on to one listing
  request with the default limit of 100 and no cursor, and scans that first page only:
  it asks for the details of the entries with exactly that name, in the order of the
  page, until one lookup succeeds, and returns those details. It returns none when no
  lookup succeeds; a failing listing request is raised. No page beyond the first is
  ever requested.
\<close>

theorem find_server_by_reference_first_page:
  "((\<exists>rest. snd (find_server_by_reference reg reference) = GetServer reference # rest)
      \<longleftrightarrow> length reference = 36 \<and> count_list reference CHR ''-'' = 4)
   \<and> find_server_by_reference reg reference =
       (let direct = (length reference = 36 \<and> count_list reference CHR ''-'' = 4);
            direct_request = (if direct then [GetServer reference] else [])
        in if direct \<and> details reg reference \<noteq> None
           then (Inr (details reg reference), direct_request)
           else
             (case respond_listing reg (Some 100) None of
                Inl e \<Rightarrow> (Inl e, direct_request @ [GetServers (Some 100) None])
              | Inr data \<Rightarrow>
                  (let ids = name_matched_ids reference (listed_servers data);
                       failed = takeWhile (\<lambda>i. details reg i = None) ids;
                       found = take 1 (dropWhile (\<lambda>i. details reg i = None) ids)
                   in (Inr (case found of [] \<Rightarrow> None | i # rest \<Rightarrow> details reg i),
                       direct_request @ GetServers (Some 100) None
                         # map GetServer (failed @ found)))))"
proof (intro conjI)
  show "(\<exists>rest. snd (find_server_by_reference reg reference) = GetServer reference # rest)
      \<longleftrightarrow> length reference = 36 \<and> count_list reference CHR ''-'' = 4"
    using find_log_head [of reg reference] by (simp add: looks_like_uuid_def)
next
  show "find_server_by_reference reg reference =
       (let direct = (length reference = 36 \<and> count_list reference CHR ''-'' = 4);
            direct_request = (if direct then [GetServer reference] else [])
        in if direct \<and> details reg reference \<noteq> None
           then (Inr (details reg reference), direct_request)
           else
             (case respond_listing reg (Some 100) None of
                Inl e \<Rightarrow> (Inl e, direct_request @ [GetServers (Some 100) None])
              | Inr data \<Rightarrow>
                  (let ids = name_matched_ids reference (listed_servers data);
                       failed = takeWhile (\<lambda>i. details reg i = None) ids;
                       found = take 1 (dropWhile (\<lambda>i. details reg i = None) ids)
                   in (Inr (case found of [] \<Rightarrow> None | i # rest \<Rightarrow> details reg i),
                       direct_request @ GetServers (Some 100) None
                         # map GetServer (failed @ found)))))"
    using find_server_by_reference_exact [of reg reference]
    unfolding looks_like_uuid_def .
qed

theorem find_server_by_reference_first_page_witness:
  "find_server_by_reference demo_registry ''files''
     = (Inr (Some [(''id'', ''4''), (''name'', ''files''), (''version'', ''1.0'')]),
        [GetServers (Some 100) None, GetServer ''2'', GetServer ''4''])
   \<and> find_server_by_reference demo_registry ''123e4567-e89b-12d3-a456-426614174000''
       = (Inr (Some [(''id'', ''123e4567-e89b-12d3-a456-426614174000''), (''name'', ''by-id'')]),
          [GetServer ''123e4567-e89b-12d3-a456-426614174000''])
   \<and> find_server_by_reference down_registry ''123e4567-e89b-12d3-a456-426614174000''
       = (Inl (RequestException ''503 Server Error''),
          [GetServer ''123e4567-e89b-12d3-a456-426614174000'', GetServers (Some 100) None])"
proof -
  let ?u = "''123e4567-e89b-12d3-a456-426614174000''"
  have ids: "name_matched_ids ''files'' (listed_servers demo_first_page) = [''2'', ''4'']"
    by (simp add: name_matched_ids_def listed_servers_def demo_first_page_def)
  have d: "details demo_registry ''2'' = None"
          "details demo_registry ''4''
             = Some [(''id'', ''4''), (''name'', ''files''), (''version'', ''1.0'')]"
          "details demo_registry ?u = Some [(''id'', ?u), (''name'', ''by-id'')]"
          "details down_registry ?u = None"
    by (simp_all add: details_def demo_registry_def down_registry_def)
  have l: "respond_listing demo_registry (Some 100) None = Inr demo_first_page"
          "respond_listing down_registry (Some 100) None = Inl (RequestException ''503 Server Error'')"
    by (simp_all add: demo_registry_def down_registry_def)
  have n: "\<not> (length ''files'' = 36 \<and> count_list ''files'' CHR ''-'' = 4)"
          "length ?u = 36 \<and> count_list ?u CHR ''-'' = 4"
    by simp_all
  note t = find_server_by_reference_first_page
  from t [of demo_registry "''files''"]
  have 1: "find_server_by_reference demo_registry ''files''
     = (Inr (Some [(''id'', ''4''), (''name'', ''files''), (''version'', ''1.0'')]),
        [GetServers (Some 100) None, GetServer ''2'', GetServer ''4''])"
    by (simp add: n l ids d Let_def)
  from t [of demo_registry ?u]
  have 2: "find_server_by_reference demo_registry ?u
       = (Inr (Some [(''id'', ?u), (''name'', ''by-id'')]), [GetServer ?u])"
    by (simp add: n d Let_def)
  from t [of down_registry ?u]
  have 3: "find_server_by_reference down_registry ?u
       = (Inl (RequestException ''503 Server Error''),
          [GetServer ?u, GetServers (Some 100) None])"
    by (simp add: n l d Let_def)
  from 1 2 3 show ?thesis by simp
qed

lemma scan_by_name_skip:
  "map_of server ''name'' = Some reference \<Longrightarrow> map_of server ''id'' = Some server_id \<Longrightarrow>
   fst (get_server_info reg server_id) = Inl e \<Longrightarrow>
     scan_by_name reg reference (server # rest)
       = (fst (scan_by_name reg reference rest),
          GetServer server_id # snd (scan_by_name reg reference rest))"
  using get_server_info_log[of reg server_id]
  by (auto split: prod.splits sum.splits)

text \<open>
  Claim C9. An exception can leave \<open>find_server_by_reference\<close> only as the failure
  of the listing request, and such a failure does leave it. A failing direct lookup
  is followed by the exact-name strategy; in the scan, an entry with the right name whose
  details cannot be fetched is skipped and the scan goes on with the remaining entries.
\<close>

theorem find_server_by_reference_failures:
  "(fst (find_server_by_reference reg reference) = Inl e \<longrightarrow>
      respond_listing reg (Some 100) None = Inl e)
   \<and> (looks_like_uuid reference \<and> fst (get_server_info reg reference) = Inl e1 \<longrightarrow>
        find_server_by_reference reg reference
          = (fst (exact_name_match reg reference),
             GetServer reference # snd (exact_name_match reg reference)))
   \<and> (map_of server ''name'' = Some reference \<and> map_of server ''id'' = Some server_id
        \<and> fst (get_server_info reg server_id) = Inl e2 \<longrightarrow>
        scan_by_name reg reference (server # rest)
          = (fst (scan_by_name reg reference rest),
             GetServer server_id # snd (scan_by_name reg reference rest)))
   \<and> ((\<not> looks_like_uuid reference \<or> fst (get_server_info reg reference) = Inl e3)
        \<and> respond_listing reg (Some 100) None = Inl e \<longrightarrow>
        fst (find_server_by_reference reg reference) = Inl e)"
proof (intro conjI impI)
  assume a: "fst (find_server_by_reference reg reference) = Inl e"
  show "respond_listing reg (Some 100) None = Inl e"
  proof (cases "looks_like_uuid reference")
    case True
    show ?thesis
    proof (cases "fst (get_server_info reg reference)")
      case (Inl e')
      with True a have "fst (exact_name_match reg reference) = Inl e"
        by (simp add: find_uuid_fail)
      then show ?thesis by (simp add: exact_name_match_result split: sum.splits)
    next
      case (Inr info)
      with True a show ?thesis by (simp add: find_uuid_ok)
    qed
  next
    case False
    with a have "fst (exact_name_match reg reference) = Inl e"
      by (simp add: find_not_uuid)
    then show ?thesis by (simp add: exact_name_match_result split: sum.splits)
  qed
next
  assume "looks_like_uuid reference \<and> fst (get_server_info reg reference) = Inl e1"
  then show "find_server_by_reference reg reference
          = (fst (exact_name_match reg reference),
             GetServer reference # snd (exact_name_match reg reference))"
    by (simp add: find_uuid_fail)
next
  assume "map_of server ''name'' = Some reference \<and> map_of server ''id'' = Some server_id
        \<and> fst (get_server_info reg server_id) = Inl e2"
  then show "scan_by_name reg reference (server # rest)
          = (fst (scan_by_name reg reference rest),
             GetServer server_id # snd (scan_by_name reg reference rest))"
    using scan_by_name_skip by blast
next
  assume a: "(\<not> looks_like_uuid reference \<or> fst (get_server_info reg reference) = Inl e3)
        \<and> respond_listing reg (Some 100) None = Inl e"
  then have m: "fst (exact_name_match reg reference) = Inl e"
    by (simp add: exact_name_match_result)
  show "fst (find_server_by_reference reg reference) = Inl e"
  proof (cases "looks_like_uuid reference")
    case True
    with a m show ?thesis by (simp add: find_uuid_fail)
  next
    case False
    with m show ?thesis by (simp add: find_not_uuid)
  qed
qed

theorem find_server_by_reference_failures_witness:
  "find_server_by_reference down_registry ''123e4567-e89b-12d3-a456-426614174000''
     = (Inl (RequestException ''503 Server Error''),
        [GetServer ''123e4567-e89b-12d3-a456-426614174000'', GetServers (Some 100) None])
   \<and> respond_listing down_registry (Some 100) None = Inl (RequestException ''503 Server Error'')
   \<and> scan_by_name demo_registry ''files''
        ([(''id'', ''2''), (''name'', ''files''), (''description'', ''Local FILE access'')]
         # [[(''name'', ''files'')], [(''id'', ''4''), (''name'', ''files'')]])
       = (Some [(''id'', ''4''), (''name'', ''files''), (''version'', ''1.0'')],
          [GetServer ''2'', GetServer ''4''])"
proof -
  let ?u = "''123e4567-e89b-12d3-a456-426614174000''"
  let ?e = "RequestException ''503 Server Error''"
  let ?s = "[(''id'', ''2''), (''name'', ''files''), (''description'', ''Local FILE access'')]"
  let ?rest = "[[(''name'', ''files'')], [(''id'', ''4''), (''name'', ''files'')]]"
  have u: "looks_like_uuid ?u"
    by (simp add: looks_like_uuid_def)
  have d: "fst (get_server_info down_registry ?u) = Inl ?e"
    by (simp add: get_server_info_def down_registry_def)
  have l: "respond_listing down_registry (Some 100) None = Inl ?e"
    by (simp add: down_registry_def)
  have x: "exact_name_match down_registry ?u = (Inl ?e, [GetServers (Some 100) None])"
    by (simp add: exact_name_match_def list_servers_def down_registry_def)
  have s: "map_of ?s ''name'' = Some ''files''" "map_of ?s ''id'' = Some ''2''"
          "fst (get_server_info demo_registry ''2'') = Inl (RequestException ''404 Client Error'')"
    by (simp_all add: get_server_info_def demo_registry_def)
  have r: "scan_by_name demo_registry ''files'' ?rest
             = (Some [(''id'', ''4''), (''name'', ''files''), (''version'', ''1.0'')],
                [GetServer ''4''])"
    by (simp add: get_server_info_def demo_registry_def)
  note t1 = find_server_by_reference_failures
              [where reg = down_registry and reference = ?u and e = ?e and ?e1.0 = ?e
                 and ?e3.0 = ?e]
  note t2 = find_server_by_reference_failures
              [where reg = demo_registry and reference = "''files''" and server = ?s
                 and server_id = "''2''" and ?e2.0 = "RequestException ''404 Client Error''"
                 and rest = ?rest]
  from t1 u d have 1: "find_server_by_reference down_registry ?u
                        = (Inl ?e, [GetServer ?u, GetServers (Some 100) None])"
    by (simp add: x)
  from t2 s have 2: "scan_by_name demo_registry ''files'' (?s # ?rest)
       = (Some [(''id'', ''4''), (''name'', ''files''), (''version'', ''1.0'')],
          [GetServer ''2'', GetServer ''4''])"
    by (simp only: r fst_conv snd_conv simp_thms)
  from 1 2 l show ?thesis by simp
qed

section \<open>Properties of the command line\<close>







lemma map_of_start_iff:
  "map_of table ''start'' \<noteq> None \<longleftrightarrow> (\<exists>command. (''start'', command) \<in> set table)"
proof
  assume "map_of table ''start'' \<noteq> None"
  then obtain command where "map_of table ''start'' = Some command" by blast
  then show "\<exists>command. (''start'', command) \<in> set table"
    by (blast dest: map_of_SomeD)
next
  assume "\<exists>command. (''start'', command) \<in> set table"
  then show "map_of table ''start'' \<noteq> None"
    by (auto dest: weak_map_of_SomeI)
qed

lemma has_start_Some:
  "has_start (Some config) \<longleftrightarrow>
     (case scripts config of
        None \<Rightarrow> False
      | Some ScriptsNull \<Rightarrow> False
      | Some (ScriptsTable table) \<Rightarrow> map_of table ''start'' \<noteq> None)"
proof (cases "scripts config")
  case None
  then show ?thesis by (simp add: has_start_def)
next
  case (Some v)
  show ?thesis
  proof (cases v)
    case ScriptsNull
    with Some show ?thesis by (simp add: has_start_def)
  next
    case (ScriptsTable table)
    with Some map_of_start_iff [of table] show ?thesis by (simp add: has_start_def)
  qed
qed

lemma has_start_None: "\<not> has_start None"
  by (simp add: has_start_def)

lemma get_default_script_has_start:
  "load_awd_config proj = Inr cfg \<Longrightarrow> \<not> scripts_is_null cfg \<Longrightarrow>
     get_default_script proj = Inr (if has_start cfg then Some ''start'' else None)"
  by (cases cfg) (simp_all add: get_default_script_def has_start_None has_start_Some
      scripts_is_null_def split: option.splits scripts_value.splits)

text \<open>
  Claim C3 fails on the code for a manifest that has the key \<open>scripts\<close> with nothing
  under it, which is a manifest without a scripts table: \<open>run\<close> without a script
  name ends in the outermost handler, because \<open>_get_default_script\<close> raises
  \<open>TypeError\<close>. It prints that error only, not the list of the available scripts;
  the exit status is \<open>1\<close> and no script is started.
\<close>

theorem run_null_scripts_without_script_list:
  "run null_scripts_project good_runner None [] =
     ([Echo ''error'' (Some ''error'')
         ''Error running script: argument of type 'NoneType' is not iterable''],
      1)"
  by (simp add: run_def run_default_def get_default_script_def load_awd_config_def
      null_scripts_project_def run_failed_def rich_error_def rich_echo_def quote_def)

text \<open>
  For every other manifest the behaviour is the one described. When the manifest (if
  there is one) has no \<open>scripts\<close> key, or a scripts table without a \<open>start\<close>
  entry, \<open>run\<close> without a script name prints the error and the available scripts,
  ends with exit status \<open>1\<close>, and never starts a script: its outcome does not depend
  on the script runner or on the parameters. When the scripts table has a \<open>start\<close>
  entry, \<open>run\<close> without a script name is \<open>run\<close> of \<open>start\<close>.
\<close>

lemma run_without_script_name:
  "((script_name = None \<or> script_name = Some []) \<and> load_awd_config proj = Inr cfg
      \<and> \<not> scripts_is_null cfg \<and> \<not> has_start cfg
    \<longrightarrow>
      run proj runner script_name param =
        ([rich_error ''No script specified and no 'start' script defined in awd.yml'',
          rich_info ''Available scripts:'' ''info'',
          ScriptTable (case cfg of None \<Rightarrow> []
                       | Some config \<Rightarrow>
                           (case scripts config of Some (ScriptsTable t) \<Rightarrow> t | _ \<Rightarrow> []))],
         1)
      \<and> \<not> list_ex is_RunScript (fst (run proj runner script_name param))
      \<and> snd (run proj runner script_name param) \<noteq> 0)
   \<and> ((script_name = None \<or> script_name = Some []) \<and> load_awd_config proj = Inr cfg
        \<and> has_start cfg
      \<longrightarrow>
        run proj runner script_name param = run proj runner (Some ''start'') param
        \<and> hd (fst (run proj runner script_name param))
            = rich_info ''Running script: start'' ''running'')"
proof (intro conjI impI)
  assume a: "(script_name = None \<or> script_name = Some []) \<and> load_awd_config proj = Inr cfg
      \<and> \<not> scripts_is_null cfg \<and> \<not> has_start cfg"
  then have r: "run proj runner script_name param = run_default proj runner param"
    by (auto simp: run_def)
  from a have l: "list_available_scripts proj =
      Inr (ScriptsTable (case cfg of None \<Rightarrow> []
           | Some config \<Rightarrow> (case scripts config of Some (ScriptsTable t) \<Rightarrow> t | _ \<Rightarrow> [])))"
    by (simp add: list_available_scripts_def scripts_is_null_def
        split: option.splits scripts_value.splits)
  from a show e: "run proj runner script_name param =
        ([rich_error ''No script specified and no 'start' script defined in awd.yml'',
          rich_info ''Available scripts:'' ''info'',
          ScriptTable (case cfg of None \<Rightarrow> []
                       | Some config \<Rightarrow>
                           (case scripts config of Some (ScriptsTable t) \<Rightarrow> t | _ \<Rightarrow> []))],
         1)"
    by (simp add: r run_default_def get_default_script_has_start l prepend_def)
  show "\<not> list_ex is_RunScript (fst (run proj runner script_name param))"
    by (simp add: e rich_error_def rich_info_def rich_echo_def)
  show "snd (run proj runner script_name param) \<noteq> 0"
    by (simp add: e)
next
  assume a: "(script_name = None \<or> script_name = Some []) \<and> load_awd_config proj = Inr cfg
        \<and> has_start cfg"
  then have "\<not> scripts_is_null cfg"
    by (auto simp: has_start_def scripts_is_null_def)
  with a have r: "run proj runner script_name param = run_named runner ''start'' param"
    by (auto simp: run_def run_default_def get_default_script_has_start)
  then show "run proj runner script_name param = run proj runner (Some ''start'') param"
    by (simp add: run_def)
  show "hd (fst (run proj runner script_name param)) = rich_info ''Running script: start'' ''running''"
    by (simp add: r run_named_def prepend_def split: prod.splits)
qed

lemma run_without_script_name_examples:
  "run no_start_project good_runner None [''name=Ada''] =
     ([Echo ''error'' (Some ''error'')
         ''No script specified and no 'start' script defined in awd.yml'',
       Echo ''info'' (Some ''info'') ''Available scripts:'',
       ScriptTable [(''fast'', ''llm prompt main.prompt.md'')]],
      1)
   \<and> run start_project good_runner None [''name=Ada''] =
     ([Echo ''info'' (Some ''running'') ''Running script: start'',
       Echo ''muted'' None ''  - name: Ada'',
       RunScript ''start'' [(''name'', ''Ada'')],
       BlankLine,
       Echo ''success'' (Some ''sparkles'') ''Script executed successfully!''],
      0)"
proof -
  let ?c1 = "\<lparr>dependencies = None,
              scripts = Some (ScriptsTable [(''fast'', ''llm prompt main.prompt.md'')])\<rparr>"
  let ?c2 = "\<lparr>dependencies = None,
              scripts = Some (ScriptsTable [(''start'', ''codex run main.prompt.md'')])\<rparr>"
  have l1: "load_awd_config no_start_project = Inr (Some ?c1)"
    by (simp add: load_awd_config_def no_start_project_def)
  have l2: "load_awd_config start_project = Inr (Some ?c2)"
    by (simp add: load_awd_config_def start_project_def)
  have n1: "\<not> has_start (Some ?c1)" "\<not> scripts_is_null (Some ?c1)"
    by (simp_all add: has_start_Some scripts_is_null_def)
  have n2: "has_start (Some ?c2)"
    by (simp add: has_start_Some)
  from run_without_script_name [of None no_start_project "Some ?c1" good_runner "[''name=Ada'']"]
    l1 n1
  have 1: "run no_start_project good_runner None [''name=Ada''] =
     ([Echo ''error'' (Some ''error'')
         ''No script specified and no 'start' script defined in awd.yml'',
       Echo ''info'' (Some ''info'') ''Available scripts:'',
       ScriptTable [(''fast'', ''llm prompt main.prompt.md'')]],
      1)"
    by (simp add: rich_error_def rich_info_def rich_echo_def)
  have s: "run start_project good_runner (Some ''start'') [''name=Ada''] =
     ([Echo ''info'' (Some ''running'') ''Running script: start'',
       Echo ''muted'' None ''  - name: Ada'',
       RunScript ''start'' [(''name'', ''Ada'')],
       BlankLine,
       Echo ''success'' (Some ''sparkles'') ''Script executed successfully!''],
      0)"
    by code_simp
  from run_without_script_name [of None start_project "Some ?c2" good_runner "[''name=Ada'']"]
    l2 n2
  have 2: "run start_project good_runner None [''name=Ada'']
             = run start_project good_runner (Some ''start'') [''name=Ada'']"
    by simp
  from 1 2 s show ?thesis by simp
qed

lemma split_first_eq_parts:
  assumes "CHR ''='' \<in> set p"
  shows "p = fst (split_first_eq p) @ CHR ''='' # snd (split_first_eq p)"
    and "CHR ''='' \<notin> set (fst (split_first_eq p))"
proof -
  let ?P = "\<lambda>c. c \<noteq> CHR ''=''"
  from assms have ne: "dropWhile ?P p \<noteq> []"
    by auto
  then have "\<not> ?P (hd (dropWhile ?P p))"
    by (rule hd_dropWhile)
  with ne have d: "dropWhile ?P p = CHR ''='' # tl (dropWhile ?P p)"
    by (cases "dropWhile ?P p") simp_all
  have "p = takeWhile ?P p @ dropWhile ?P p"
    by simp
  with d show "p = fst (split_first_eq p) @ CHR ''='' # snd (split_first_eq p)"
    by (simp add: split_first_eq_def)
  show "CHR ''='' \<notin> set (fst (split_first_eq p))"
    by (auto simp: split_first_eq_def dest: set_takeWhileD)
qed

lemma parse_loop_filter:
  "parse_loop (filter (\<lambda>p. CHR ''='' \<in> set p) ps) acc = parse_loop ps acc"
  by (induction ps arbitrary: acc) (simp_all split: prod.splits)

lemma find_append_cases:
  "find P (xs @ ys) = (case find P xs of None \<Rightarrow> find P ys | Some x \<Rightarrow> Some x)"
  by (induction xs) simp_all

lemma parse_loop_lookup:
  "map_of (fst (parse_loop ps acc)) name =
     (case find (\<lambda>p. CHR ''='' \<in> set p \<and> fst (split_first_eq p) = name) (rev ps) of
        None \<Rightarrow> map_of acc name
      | Some p \<Rightarrow> Some (snd (split_first_eq p)))"
proof (induction ps arbitrary: acc)
  case Nil
  show ?case by simp
next
  case (Cons p ps)
  show ?case
  proof (cases "CHR ''='' \<in> set p")
    case True
    obtain n v where s: "split_first_eq p = (n, v)"
      by (cases "split_first_eq p")
    with True have "map_of (fst (parse_loop (p # ps) acc)) name
                      = map_of (fst (parse_loop ps (AList.update n v acc))) name"
      by (simp split: prod.splits)
    with True s show ?thesis
      by (simp add: Cons.IH find_append_cases update_conv' split: option.splits)
  next
    case False
    then show ?thesis
      by (simp add: Cons.IH find_append_cases split: option.splits)
  qed
qed

text \<open>
  Claim C8. A token that contains \<open>=\<close> is split at its first \<open>=\<close> into the
  parameter name and the value, which may contain further \<open>=\<close>. Tokens without
  \<open>=\<close> are ignored: the parameters, and the whole outcome of \<open>run\<close> and of
  \<open>preview\<close>, are those of the tokens that contain \<open>=\<close>. The value of a name in
  the resulting dictionary is the value of the last token with that name.
\<close>

theorem parse_params_spec:
  "(CHR ''='' \<in> set p \<longrightarrow>
      (\<exists>param_name val. split_first_eq p = (param_name, val)
          \<and> p = param_name @ CHR ''='' # val \<and> CHR ''='' \<notin> set param_name))
   \<and> parse_params param = parse_params (filter (\<lambda>p. CHR ''='' \<in> set p) param)
   \<and> run proj runner script_name param
       = run proj runner script_name (filter (\<lambda>p. CHR ''='' \<in> set p) param)
   \<and> preview proj display script_name param
       = preview proj display script_name (filter (\<lambda>p. CHR ''='' \<in> set p) param)
   \<and> map_of (fst (parse_params param)) name =
       (case find (\<lambda>p. CHR ''='' \<in> set p \<and> fst (split_first_eq p) = name) (rev param) of
          None \<Rightarrow> None
        | Some p \<Rightarrow> Some (snd (split_first_eq p)))"
proof (intro conjI impI)
  assume "CHR ''='' \<in> set p"
  from split_first_eq_parts [OF this]
  show "\<exists>param_name val. split_first_eq p = (param_name, val)
          \<and> p = param_name @ CHR ''='' # val \<and> CHR ''='' \<notin> set param_name"
    by (cases "split_first_eq p") simp
next
  show f: "parse_params param = parse_params (filter (\<lambda>p. CHR ''='' \<in> set p) param)"
    by (simp add: parse_params_def parse_loop_filter)
  then have rn: "run_named runner n (filter (\<lambda>p. CHR ''='' \<in> set p) param)
               = run_named runner n param" for n
    by (simp add: run_named_def)
  have rd: "run_default proj runner (filter (\<lambda>p. CHR ''='' \<in> set p) param)
               = run_default proj runner param"
    by (simp add: run_default_def rn split: sum.splits option.splits)
  show "run proj runner script_name param
       = run proj runner script_name (filter (\<lambda>p. CHR ''='' \<in> set p) param)"
    by (simp add: run_def rn rd split: option.splits)
  from f have pn: "preview_named display n (filter (\<lambda>p. CHR ''='' \<in> set p) param)
               = preview_named display n param" for n
    by (simp add: preview_named_def)
  have pd: "preview_default proj display (filter (\<lambda>p. CHR ''='' \<in> set p) param)
               = preview_default proj display param"
    by (simp add: preview_default_def pn split: sum.splits option.splits)
  show "preview proj display script_name param
       = preview proj display script_name (filter (\<lambda>p. CHR ''='' \<in> set p) param)"
    by (simp add: preview_def pn pd split: option.splits)
next
  show "map_of (fst (parse_params param)) name =
       (case find (\<lambda>p. CHR ''='' \<in> set p \<and> fst (split_first_eq p) = name) (rev param) of
          None \<Rightarrow> None
        | Some p \<Rightarrow> Some (snd (split_first_eq p)))"
    by (simp add: parse_params_def parse_loop_lookup split: option.splits)
qed

theorem parse_params_spec_witness:
  "split_first_eq ''name=B=c'' = (''name'', ''B=c'')
   \<and> parse_params [''name=Ada'', ''verbose'', ''name=B=c'', ''k='']
       = parse_params [''name=Ada'', ''name=B=c'', ''k='']
   \<and> fst (parse_params [''name=Ada'', ''verbose'', ''name=B=c'', ''k=''])
       = [(''name'', ''B=c''), (''k'', [])]
   \<and> map_of (fst (parse_params [''name=Ada'', ''verbose'', ''name=B=c'', ''k=''])) ''name''
       = Some ''B=c''"
proof -
  let ?param = "[''name=Ada'', ''verbose'', ''name=B=c'', ''k='']"
  have m: "CHR ''='' \<in> set ''name=B=c''"
    by simp
  have s: "split_first_eq ''name=B=c'' = (''name'', ''B=c'')"
    by (simp add: split_first_eq_def)
  have f: "filter (\<lambda>p. CHR ''='' \<in> set p) ?param = [''name=Ada'', ''name=B=c'', ''k='']"
    by simp
  have l: "find (\<lambda>p. CHR ''='' \<in> set p \<and> fst (split_first_eq p) = ''name'') (rev ?param)
             = Some ''name=B=c''"
    by (simp add: split_first_eq_def)
  have v: "fst (parse_params [''name=Ada'', ''name=B=c'', ''k=''])
             = [(''name'', ''B=c''), (''k'', [])]"
    by (simp add: parse_params_def split_first_eq_def)
  note t = parse_params_spec [where p = "''name=B=c''" and param = ?param and name = "''name''"]
  from t m have 0: "\<exists>param_name val. split_first_eq ''name=B=c'' = (param_name, val)
          \<and> ''name=B=c'' = param_name @ CHR ''='' # val \<and> CHR ''='' \<notin> set param_name"
    by blast
  from t have 1: "parse_params ?param = parse_params (filter (\<lambda>p. CHR ''='' \<in> set p) ?param)"
    by blast
  from t have 2: "map_of (fst (parse_params ?param)) ''name'' =
       (case find (\<lambda>p. CHR ''='' \<in> set p \<and> fst (split_first_eq p) = ''name'') (rev ?param) of
          None \<Rightarrow> None
        | Some p \<Rightarrow> Some (snd (split_first_eq p)))"
    by blast
  from 1 have 3: "parse_params ?param = parse_params [''name=Ada'', ''name=B=c'', ''k='']"
    by (simp only: f)
  from 2 have 4: "map_of (fst (parse_params ?param)) ''name'' = Some ''B=c''"
    by (simp only: l s option.case snd_conv)
  from 0 s 3 4 v show ?thesis by simp
qed

end
